theory Spec2Isabelle
  imports Main "HOL-Library.Sublist"
begin

section \<open>Python values used by \<open>qr_gui.py\<close>\<close>

text \<open>
  A Python \<open>str\<close> is a sequence of Unicode code points; \<open>len\<close>, slicing and iteration
  count code points. A code point is a natural number, an ASCII literal of the source is
  written \<open>lit ''...''\<close>.
\<close>

type_synonym pychar = nat
type_synonym pystr = "pychar list"

abbreviation ch :: "char \<Rightarrow> pychar" where
  "ch c \<equiv> of_char c"

definition lit :: "string \<Rightarrow> pystr" where
  "lit s = map of_char s"

text \<open>\<open>s.startswith(p)\<close> and \<open>s.endswith(p)\<close> for a single string \<open>p\<close>.\<close>

definition startswith :: "pystr \<Rightarrow> pystr \<Rightarrow> bool" where
  "startswith s p = prefix p s"

definition endswith :: "pystr \<Rightarrow> pystr \<Rightarrow> bool" where
  "endswith s p = suffix p s"

text \<open>
  The tables of the Unicode character database that \<open>str.isalnum\<close> and \<open>str.lower\<close>
  consult for code points outside ASCII are part of the Python runtime, not of this
  repository: they are a parameter. \<open>alnum_ext c\<close> is \<open>c.isalnum()\<close> for a code point
  \<open>c \<ge> 128\<close>; \<open>lower_ext left c right\<close> is the lower-case mapping of such a code
  point, which may be several code points long and may depend on the neighbouring text
  (the final sigma rule).
\<close>

record unicode_db =
  alnum_ext :: "pychar \<Rightarrow> bool"
  lower_ext :: "pystr \<Rightarrow> pychar \<Rightarrow> pystr \<Rightarrow> pystr"

definition isalnum :: "unicode_db \<Rightarrow> pychar \<Rightarrow> bool" where
  "isalnum db c =
     (if c < 128 then (48 \<le> c \<and> c \<le> 57) \<or> (65 \<le> c \<and> c \<le> 90) \<or> (97 \<le> c \<and> c \<le> 122)
      else alnum_ext db c)"

definition ascii_lower :: "pychar \<Rightarrow> pychar" where
  "ascii_lower c = (if 65 \<le> c \<and> c \<le> 90 then c + 32 else c)"

text \<open>\<open>s.lower()\<close>: code point by code point, from the first to the last; \<open>left\<close> is the text already passed.\<close>

fun lower_from :: "unicode_db \<Rightarrow> pystr \<Rightarrow> pystr \<Rightarrow> pystr" where
  "lower_from db left [] = []"
| "lower_from db left (c # right) =
     (if c < 128 then [ascii_lower c] else lower_ext db left c right)
       @ lower_from db (left @ [c]) right"

definition lower :: "unicode_db \<Rightarrow> pystr \<Rightarrow> pystr" where
  "lower db s = lower_from db [] s"

text \<open>
  An exception, as far as the program tells exceptions apart. \<open>Exception r\<close> is an instance
  of \<open>Exception\<close> or of a class derived from it; \<open>r\<close> is what \<open>str(e)\<close> does when the handler
  at line 102 builds its message from it: it returns the text, or it raises (\<open>__str__\<close> is
  the exception's own method). The other exceptions are instances of \<open>BaseException\<close> that
  are not instances of \<open>Exception\<close>: \<open>KeyboardInterrupt\<close>, \<open>SystemExit\<close>, and
  \<open>BaseException c\<close> for an instance of any other such class, \<open>c\<close> being the name of the class.
\<close>

datatype exn =
    Exception "exn + pystr"
  | KeyboardInterrupt
  | SystemExit
  | BaseException pystr

text \<open>What \<open>except Exception\<close> tests.\<close>

definition is_Exception :: "exn \<Rightarrow> bool" where
  "is_Exception x = (case x of Exception r \<Rightarrow> True | _ \<Rightarrow> False)"

text \<open>
  The values a caller can pass for \<open>url\<close>. \<open>PyStr s\<close> is an instance of \<open>str\<close> with the value
  \<open>s\<close> and the methods of \<open>str\<close>. \<open>PyObj t i\<close> is any other object for which
  \<open>isinstance(obj, str)\<close> is not true. \<open>t\<close> is what its truth-value test (\<open>__bool__\<close>, else
  \<open>__len__\<close>) does: it returns a boolean or raises. \<open>i\<close> is what \<open>isinstance(obj, str)\<close> does:
  \<open>None\<close> when it returns \<open>False\<close>, the exception when it raises (the test reads the
  object's \<open>__class__\<close>, which can be a property that raises). An object that is not a
  \<open>str\<close> with the methods of \<open>str\<close> and for which \<open>isinstance(obj, str)\<close> is true (a subclass
  that overrides them, a mock with \<open>str\<close> as its specification) is outside these values.
\<close>

datatype pyval =
    PyNone
  | PyBool bool
  | PyInt int
  | PyStr pystr
  | PyObj "exn + bool" "exn option"

text \<open>\<open>not v\<close>.\<close>

fun py_not :: "pyval \<Rightarrow> exn + bool" where
  "py_not PyNone = Inr True"
| "py_not (PyBool b) = Inr (\<not> b)"
| "py_not (PyInt i) = Inr (i = 0)"
| "py_not (PyStr s) = Inr (s = [])"
| "py_not (PyObj t i) = (case t of Inl e \<Rightarrow> Inl e | Inr b \<Rightarrow> Inr (\<not> b))"

text \<open>\<open>isinstance(v, str)\<close>.\<close>

fun isinstance_str :: "pyval \<Rightarrow> exn + bool" where
  "isinstance_str PyNone = Inr False"
| "isinstance_str (PyBool b) = Inr False"
| "isinstance_str (PyInt n) = Inr False"
| "isinstance_str (PyStr s) = Inr True"
| "isinstance_str (PyObj t i) = (case i of None \<Rightarrow> Inr False | Some e \<Rightarrow> Inl e)"

section \<open>\<open>QRCodeGenerator.validate_url\<close> and \<open>QRCodeGenerator.format_url\<close>\<close>

text \<open>
  \<open>validate_url\<close>, lines 24 to 41. Line 30 evaluates \<open>not url\<close> first and
  \<open>isinstance(url, str)\<close> only when \<open>url\<close> is true; either test can raise. The string
  tests run on a \<open>str\<close> only: \<open>isinstance_str\<close> is true for \<open>PyStr\<close> alone, so the last case
  below is never taken.
\<close>

definition validate_url :: "pyval \<Rightarrow> exn + bool" where
  "validate_url url =
     (case py_not url of
        Inl e \<Rightarrow> Inl e
      | Inr True \<Rightarrow> Inr False
      | Inr False \<Rightarrow>
          (case isinstance_str url of
             Inl e \<Rightarrow> Inl e
           | Inr False \<Rightarrow> Inr False
           | Inr True \<Rightarrow>
               (case url of
                  PyStr s \<Rightarrow>
                    if startswith s (lit ''http://'') \<or> startswith s (lit ''https://'')
                      then Inr True
                    else if ch CHR ''.'' \<in> set s \<and> \<not> startswith s (lit ''.'')
                            \<and> \<not> endswith s (lit ''.'')
                      then Inr True
                    else Inr False
                | _ \<Rightarrow> Inr False)))"

text \<open>\<open>format_url\<close>, lines 43 to 49, on a \<open>str\<close>.\<close>

definition format_url :: "pystr \<Rightarrow> pystr" where
  "format_url url =
     (if \<not> (startswith url (lit ''http://'') \<or> startswith url (lit ''https://''))
      then lit ''https://'' @ url
      else url)"

section \<open>The generator object and its collaborators\<close>

datatype ec_level = ERROR_CORRECT_L | ERROR_CORRECT_M | ERROR_CORRECT_Q | ERROR_CORRECT_H

text \<open>The instance attributes of \<open>QRCodeGenerator\<close>, and \<open>__init__\<close>, lines 17 to 22.\<close>

record generator =
  version :: int
  box_size :: int
  border :: int
  error_correction :: ec_level

definition init :: generator where
  "init = \<lparr>version = 1, box_size = 10, border = 4, error_correction = ERROR_CORRECT_M\<rparr>"

text \<open>
  The file system as far as the program touches it: the directories that exist and the
  image stored under each file path.
\<close>

record 'img world =
  dirs :: "pystr set"
  files :: "pystr \<rightharpoonup> 'img"

text \<open>
  The \<open>qrcode\<close> library, the imaging library and the operating system are outside the
  repository. \<open>qr_make\<close> is lines 65 to 74 (construct \<open>QRCode\<close>, \<open>add_data\<close>,
  \<open>make(fit=True)\<close>), \<open>make_image\<close> is lines 77 to 80; each returns its object or raises.
  \<open>makedirs_fault\<close> and \<open>save_fault\<close> say whether \<open>os.makedirs\<close> and \<open>qr_image.save\<close>
  raise in a given file system, and what they leave behind then.
\<close>

record ('qr, 'img) env =
  qr_make :: "int \<Rightarrow> ec_level \<Rightarrow> int \<Rightarrow> int \<Rightarrow> pystr \<Rightarrow> exn + 'qr"
  make_image :: "'qr \<Rightarrow> exn + 'img"
  makedirs_fault :: "'img world \<Rightarrow> pystr \<Rightarrow> (exn \<times> 'img world) option"
  save_fault :: "'img world \<Rightarrow> 'img \<Rightarrow> pystr \<Rightarrow> (exn \<times> 'img world) option"

definition os_path_exists :: "'img world \<Rightarrow> pystr \<Rightarrow> bool" where
  "os_path_exists w p = (p \<in> dirs w \<or> p \<in> dom (files w))"

definition os_makedirs :: "('qr, 'img) env \<Rightarrow> pystr \<Rightarrow> 'img world \<Rightarrow> exn option \<times> 'img world" where
  "os_makedirs e p w =
     (case makedirs_fault e w p of
        Some (x, w') \<Rightarrow> (Some x, w')
      | None \<Rightarrow> (None, w\<lparr>dirs := insert p (dirs w)\<rparr>))"

definition image_save :: "('qr, 'img) env \<Rightarrow> 'img \<Rightarrow> pystr \<Rightarrow> 'img world \<Rightarrow> exn option \<times> 'img world" where
  "image_save e img p w =
     (case save_fault e w img p of
        Some (x, w') \<Rightarrow> (Some x, w')
      | None \<Rightarrow> (None, w\<lparr>files := (files w)(p \<mapsto> img)\<rparr>))"

text \<open>\<open>os.path.join(a, b)\<close> with the POSIX separator.\<close>

definition os_path_join :: "pystr \<Rightarrow> pystr \<Rightarrow> pystr" where
  "os_path_join a b =
     (if startswith b (lit ''/'') then b
      else if a = [] \<or> endswith a (lit ''/'') then a @ b
      else a @ lit ''/'' @ b)"

section \<open>\<open>QRCodeGenerator.generate_qr_code\<close>\<close>

text \<open>Line 84: the characters of \<open>url\<close> that are kept, cut to the first 20.\<close>

definition safe_url :: "unicode_db \<Rightarrow> pystr \<Rightarrow> pystr" where
  "safe_url db url =
     take 20 (filter (\<lambda>c. isalnum db c \<or> c = ch CHR ''-'' \<or> c = ch CHR ''_'') url)"

text \<open>
  Lines 83 to 89. \<open>filename\<close> is \<open>None\<close> or a \<open>str\<close>; \<open>not filename\<close> holds for \<open>None\<close> and
  for the empty string.
\<close>

definition derive_filename :: "unicode_db \<Rightarrow> pystr \<Rightarrow> pystr option \<Rightarrow> pystr" where
  "derive_filename db url filename =
     (let filename1 =
            (case filename of
               None \<Rightarrow> safe_url db url @ lit ''.png''
             | Some f \<Rightarrow> if f = [] then safe_url db url @ lit ''.png'' else f)
      in if \<not> endswith (lower db filename1) (lit ''.png'') then filename1 @ lit ''.png''
         else filename1)"

definition output_dir :: pystr where
  "output_dir = lit ''qr_codes_output''"

type_synonym 'img result = "bool \<times> pystr \<times> 'img option"

datatype 'a outcome = Returns 'a | Raises exn

text \<open>
  The body of the \<open>try\<close>, lines 57 to 99: the returned tuple, or the exception raised.
  \<open>validate_url\<close> accepts a \<open>str\<close> only, so past line 59 \<open>url\<close> is a \<open>str\<close> and the last
  case below is never taken.
\<close>

definition generate_body ::
  "unicode_db \<Rightarrow> ('qr, 'img) env \<Rightarrow> generator \<Rightarrow> pyval \<Rightarrow> pystr option \<Rightarrow> 'img world
     \<Rightarrow> (exn + 'img result) \<times> 'img world" where
  "generate_body db e self url filename w =
     (case validate_url url of
        Inl x \<Rightarrow> (Inl x, w)
      | Inr False \<Rightarrow> (Inr (False, lit ''Please enter a valid URL.'', None), w)
      | Inr True \<Rightarrow>
          (case url of
             PyStr u \<Rightarrow>
               (let formatted_url = format_url u in
                case qr_make e (version self) (error_correction self) (box_size self) (border self)
                       formatted_url of
                  Inl x \<Rightarrow> (Inl x, w)
                | Inr qr \<Rightarrow>
                    (case make_image e qr of
                       Inl x \<Rightarrow> (Inl x, w)
                     | Inr qr_image \<Rightarrow>
                         (let filename' = derive_filename db u filename;
                              (r, w1) = (if \<not> os_path_exists w output_dir
                                         then os_makedirs e output_dir w else (None, w))
                          in case r of
                               Some x \<Rightarrow> (Inl x, w1)
                             | None \<Rightarrow>
                                 (let filepath = os_path_join output_dir filename';
                                      (r', w2) = image_save e qr_image filepath w1
                                  in case r' of
                                       Some x \<Rightarrow> (Inl x, w2)
                                     | None \<Rightarrow>
                                         (Inr (True,
                                               lit ''QR code generated successfully! Saved as: '' @ filepath,
                                               Some qr_image), w2)))))
           | _ \<Rightarrow> (Inr (False, lit ''Please enter a valid URL.'', None), w)))"

text \<open>
  \<open>generate_qr_code\<close>, lines 51 to 102: the body under \<open>except Exception as e\<close>, which
  handles instances of \<open>Exception\<close> and lets every other exception pass. The handler
  evaluates \<open>str(e)\<close>: when that raises, the exception it raises leaves the method.
\<close>

definition generate_qr_code ::
  "unicode_db \<Rightarrow> ('qr, 'img) env \<Rightarrow> generator \<Rightarrow> pyval \<Rightarrow> pystr option \<Rightarrow> 'img world
     \<Rightarrow> 'img result outcome \<times> 'img world" where
  "generate_qr_code db e self url filename w =
     (case generate_body db e self url filename w of
        (Inr r, w') \<Rightarrow> (Returns r, w')
      | (Inl (Exception r), w') \<Rightarrow>
          (case r of
             Inr m \<Rightarrow> (Returns (False, lit ''Error generating QR code: '' @ m, None), w')
           | Inl x \<Rightarrow> (Raises x, w'))
      | (Inl x, w') \<Rightarrow> (Raises x, w'))"

text \<open>\<open>display_qr_info\<close>, lines 104 to 112: the lines printed, one per \<open>print\<close>.\<close>

definition display_qr_info :: "pystr \<Rightarrow> bool \<Rightarrow> pystr \<Rightarrow> pystr list" where
  "display_qr_info url success message =
     [ [10] @ replicate 60 (ch CHR ''=''),
       lit ''Input URL: '' @ url,
       lit ''Status: '' @ (if success then lit ''SUCCESS'' else lit ''FAILED''),
       lit ''Message: '' @ message,
       replicate 60 (ch CHR ''='') ]"

section \<open>The object over a sequence of method calls\<close>

text \<open>
  A \<open>QRCodeGenerator\<close> in use: its attributes, the file system and the lines printed so
  far. A method call is a transition; \<open>call\<close> lists the four methods with their arguments.
\<close>

record 'img app_state =
  attrs :: generator
  fs :: "'img world"
  stdout :: "pystr list"

datatype ('qr, 'img) call =
    Validate_url pyval
  | Format_url pystr
  | Generate_qr_code "('qr, 'img) env" pyval "pystr option"
  | Display_qr_info pystr bool pystr

fun exec :: "unicode_db \<Rightarrow> ('qr, 'img) call \<Rightarrow> 'img app_state \<Rightarrow> 'img app_state" where
  "exec db (Validate_url url) s = s"
| "exec db (Format_url url) s = s"
| "exec db (Generate_qr_code e url filename) s =
     s\<lparr>fs := snd (generate_qr_code db e (attrs s) url filename (fs s))\<rparr>"
| "exec db (Display_qr_info url success message) s =
     s\<lparr>stdout := stdout s @ display_qr_info url success message\<rparr>"

definition run :: "unicode_db \<Rightarrow> ('qr, 'img) call list \<Rightarrow> 'img app_state \<Rightarrow> 'img app_state" where
  "run db calls s = foldl (\<lambda>s c. exec db c s) s calls"

definition start :: "'img world \<Rightarrow> 'img app_state" where
  "start w = \<lparr>attrs = init, fs = w, stdout = []\<rparr>"

section \<open>Reference predicates and sample collaborators\<close>

text \<open>
  The specification's wording for the domain test: the string contains a \<open>.\<close> at a
  position that is neither 0 nor \<open>length - 1\<close>.
\<close>

definition spec_interior_dot :: "pystr \<Rightarrow> bool" where
  "spec_interior_dot s =
     (\<exists>i\<in>{0..<length s}. s ! i = ch CHR ''.'' \<and> i \<noteq> 0 \<and> i \<noteq> length s - 1)"

text \<open>
  Concrete collaborators for running the program on sample inputs: a Unicode database that
  knows no alphanumeric or cased code point outside ASCII, an encoder whose image is the
  length of its payload, an operating system that never fails, one whose \<open>save\<close> is
  interrupted from the keyboard, and an empty file system.
\<close>

definition ascii_db :: unicode_db where
  "ascii_db = \<lparr>alnum_ext = (\<lambda>c. False), lower_ext = (\<lambda>left c right. [c])\<rparr>"

definition ok_env :: "(pystr, nat) env" where
  "ok_env =
     \<lparr>qr_make = (\<lambda>v ec bs bd data. Inr data),
      make_image = (\<lambda>qr. Inr (length qr)),
      makedirs_fault = (\<lambda>w p. None),
      save_fault = (\<lambda>w img p. None)\<rparr>"

definition interrupted_env :: "(pystr, nat) env" where
  "interrupted_env = ok_env\<lparr>save_fault := (\<lambda>w img p. Some (KeyboardInterrupt, w))\<rparr>"

definition empty_world :: "nat world" where
  "empty_world = \<lparr>dirs = {}, files = Map.empty\<rparr>"

section \<open>Properties\<close>

subsection \<open>The formatter\<close>

lemma startswith_append [simp]: "startswith (p @ s) p"
  by (simp add: startswith_def)

text \<open>
  C5. \<open>format_url\<close> returns a string that starts with \<open>http://\<close> or \<open>https://\<close> unchanged,
  puts \<open>https://\<close> before any other string, and is idempotent.
\<close>

theorem format_url_idempotent:
  "format_url s =
     (if startswith s (lit ''http://'') \<or> startswith s (lit ''https://'') then s
      else lit ''https://'' @ s)
   \<and> format_url (format_url s) = format_url s"
  by (simp add: format_url_def)

subsection \<open>Strings\<close>

lemma lit_png: "lit ''.png'' = [46, 112, 110, 103]"
  by (simp add: lit_def)

lemma startswith_single: "startswith s (lit [c]) \<longleftrightarrow> s \<noteq> [] \<and> hd s = of_char c"
  by (cases s) (auto simp: startswith_def lit_def)

lemma endswith_single: "endswith s (lit [c]) \<longleftrightarrow> s \<noteq> [] \<and> last s = of_char c"
  by (cases s rule: rev_cases) (auto simp: endswith_def lit_def)

lemma lower_from_ascii:
  "\<forall>c\<in>set ys. c < 128 \<Longrightarrow> lower_from db left ys = map ascii_lower ys"
  by (induction ys arbitrary: left) simp_all

lemma lower_from_append:
  "\<exists>z. lower_from db left (xs @ ys) = z @ lower_from db (left @ xs) ys"
proof (induction xs arbitrary: left)
  case Nil
  then show ?case by simp
next
  case (Cons x xs)
  from Cons.IH [of "left @ [x]"] obtain z
    where "lower_from db (left @ [x]) (xs @ ys) = z @ lower_from db ((left @ [x]) @ xs) ys" ..
  then show ?case by simp
qed

text \<open>Lower-casing never disturbs a trailing \<open>.png\<close>.\<close>

lemma lower_png: "endswith (lower db (x @ lit ''.png'')) (lit ''.png'')"
proof -
  obtain z where "lower db (x @ lit ''.png'') = z @ lower_from db ([] @ x) (lit ''.png'')"
    unfolding lower_def using lower_from_append [of db "[]" x "lit ''.png''"] by blast
  moreover have "lower_from db ([] @ x) (lit ''.png'') = lit ''.png''"
    by (simp add: lit_png ascii_lower_def)
  ultimately show ?thesis by (simp add: endswith_def suffix_def)
qed

subsection \<open>The validator on strings\<close>

lemma interior_dot:
  assumes "ch CHR ''.'' \<in> set s" "\<not> startswith s (lit ''.'')" "\<not> endswith s (lit ''.'')"
  shows "spec_interior_dot s"
proof -
  from assms(1) obtain i where i: "i < length s" "s ! i = ch CHR ''.''"
    by (auto simp: in_set_conv_nth)
  then have ne: "s \<noteq> []" by auto
  from assms(2) ne have "hd s \<noteq> ch CHR ''.''" by (simp add: startswith_single)
  with ne i have "i \<noteq> 0" by (cases i) (simp_all add: hd_conv_nth)
  moreover from assms(3) ne have "last s \<noteq> ch CHR ''.''" by (simp add: endswith_single)
  with ne i have "i \<noteq> length s - 1"
    by (cases "i = length s - 1") (simp_all add: last_conv_nth)
  ultimately show ?thesis using i unfolding spec_interior_dot_def by auto
qed

text \<open>
  C1, as the code has it. On a string, \<open>validate_url\<close> returns false for the empty string,
  true for a string that starts with \<open>http://\<close> or \<open>https://\<close>, and otherwise true exactly
  when the string contains a \<open>.\<close> and neither starts nor ends with \<open>.\<close>; \<open>ftp://x\<close> is
  rejected. An accepted string without a scheme has a \<open>.\<close> strictly inside it.
\<close>

theorem validate_url_str:
  "validate_url (PyStr s) =
     Inr (s \<noteq> [] \<and>
          (startswith s (lit ''http://'') \<or> startswith s (lit ''https://'') \<or>
           (ch CHR ''.'' \<in> set s \<and> \<not> startswith s (lit ''.'') \<and> \<not> endswith s (lit ''.''))))
   \<and> validate_url (PyStr []) = Inr False
   \<and> validate_url (PyStr (lit ''ftp://x'')) = Inr False
   \<and> (validate_url (PyStr s) = Inr True \<and> \<not> startswith s (lit ''http://'')
        \<and> \<not> startswith s (lit ''https://'') \<longrightarrow> spec_interior_dot s)"
proof -
  have a: "validate_url (PyStr s) =
     Inr (s \<noteq> [] \<and>
          (startswith s (lit ''http://'') \<or> startswith s (lit ''https://'') \<or>
           (ch CHR ''.'' \<in> set s \<and> \<not> startswith s (lit ''.'') \<and> \<not> endswith s (lit ''.''))))"
    by (simp add: validate_url_def split: bool.splits)
  have b: "validate_url (PyStr []) = Inr False"
    by (simp add: validate_url_def)
  have c: "validate_url (PyStr (lit ''ftp://x'')) = Inr False"
    by (simp add: validate_url_def lit_def startswith_def endswith_def)
  have d: "validate_url (PyStr s) = Inr True \<and> \<not> startswith s (lit ''http://'')
        \<and> \<not> startswith s (lit ''https://'') \<longrightarrow> spec_interior_dot s"
    using a interior_dot by auto
  from a b c d show ?thesis by blast
qed

theorem validate_url_str_witness:
  "validate_url (PyStr (lit ''a.b'')) = Inr True \<and> spec_interior_dot (lit ''a.b'')"
  using validate_url_str [of "lit ''a.b''"]
  by (simp add: lit_def startswith_def endswith_def suffix_to_prefix)

text \<open>
  C1, as the specification words it, fails: \<open>.a.b\<close> has a \<open>.\<close> at position 2, which is
  neither the first nor the last position, and no scheme, yet it is rejected because it
  starts with \<open>.\<close>.
\<close>

theorem validate_url_interior_dot_counterexample:
  "spec_interior_dot (lit ''.a.b'') \<and> \<not> startswith (lit ''.a.b'') (lit ''http://'')
   \<and> \<not> startswith (lit ''.a.b'') (lit ''https://'')
   \<and> validate_url (PyStr (lit ''.a.b'')) = Inr False"
proof -
  have "spec_interior_dot (lit ''.a.b'')"
    unfolding spec_interior_dot_def by (rule bexI [of _ 2]) (simp_all add: lit_def)
  then show ?thesis
    by (simp add: validate_url_def lit_def startswith_def endswith_def)
qed

subsection \<open>File names and paths\<close>

lemma derive_filename_None: "derive_filename db u None = safe_url db u @ lit ''.png''"
  by (simp add: derive_filename_def lower_png)

lemma safe_url_no_slash: "\<not> startswith (safe_url db u @ lit ''.png'') (lit ''/'')"
proof (cases "safe_url db u")
  case Nil
  then show ?thesis by (simp add: startswith_single lit_png)
next
  case (Cons c cs)
  then have "c \<in> set (safe_url db u)" by simp
  then have "c \<in> set (filter (\<lambda>c. isalnum db c \<or> c = ch CHR ''-'' \<or> c = ch CHR ''_'') u)"
    unfolding safe_url_def by (rule in_set_takeD)
  then have "isalnum db c \<or> c = ch CHR ''-'' \<or> c = ch CHR ''_''" by simp
  then have "c \<noteq> ch CHR ''/''" by (auto simp: isalnum_def)
  with Cons show ?thesis by (simp add: startswith_single)
qed

lemma output_dir_join:
  "\<not> startswith f (lit ''/'') \<Longrightarrow> os_path_join output_dir f = lit ''qr_codes_output/'' @ f"
  by (simp add: os_path_join_def output_dir_def lit_def endswith_def suffix_to_prefix)

lemma default_path:
  "os_path_join output_dir (derive_filename db u None)
     = lit ''qr_codes_output/'' @ safe_url db u @ lit ''.png''"
  by (simp add: derive_filename_None output_dir_join safe_url_no_slash)

subsection \<open>Runs of \<open>generate_qr_code\<close>\<close>

text \<open>A call that reports success has written its image under the derived path, and nothing else.\<close>

lemma generate_success:
  assumes "generate_qr_code db e self (PyStr u) filename w = (Returns (True, m, i), w')"
  shows "m = lit ''QR code generated successfully! Saved as: ''
               @ os_path_join output_dir (derive_filename db u filename)
     \<and> i \<noteq> None
     \<and> files w' = (files w)(os_path_join output_dir (derive_filename db u filename) := i)"
  using assms
  by (auto simp: generate_qr_code_def generate_body_def Let_def os_makedirs_def image_save_def
      split: sum.splits bool.splits option.splits prod.splits if_splits exn.splits)

text \<open>When no collaborator raises, a valid URL runs to the end.\<close>

lemma generate_no_fault:
  assumes "validate_url (PyStr u) = Inr True"
    and "qr_make e (version self) (error_correction self) (box_size self) (border self)
           (format_url u) = Inr qr"
    and "make_image e qr = Inr img"
    and "\<forall>w p. makedirs_fault e w p = None"
    and "\<forall>w i p. save_fault e w i p = None"
  shows "generate_qr_code db e self (PyStr u) filename w =
     (Returns (True,
               lit ''QR code generated successfully! Saved as: ''
                 @ os_path_join output_dir (derive_filename db u filename),
               Some img),
      (if os_path_exists w output_dir then w else w\<lparr>dirs := insert output_dir (dirs w)\<rparr>)
        \<lparr>files := (files w)(os_path_join output_dir (derive_filename db u filename) \<mapsto> img)\<rparr>)"
  using assms
  by (simp add: generate_qr_code_def generate_body_def Let_def os_makedirs_def image_save_def)

lemma generate_invalid:
  assumes "validate_url url = Inr False"
  shows "generate_qr_code db e self url filename w =
     (Returns (False, lit ''Please enter a valid URL.'', None), w)"
  using assms by (simp add: generate_qr_code_def generate_body_def)

lemma safe_url_example: "safe_url db (lit ''example.com'') = lit ''examplecom''"
  by (simp add: safe_url_def lit_def isalnum_def)

lemma validate_example: "validate_url (PyStr (lit ''example.com'')) = Inr True"
  by (simp add: validate_url_def lit_def startswith_def endswith_def suffix_to_prefix)

lemma format_example: "format_url (lit ''example.com'') = lit ''https://example.com''"
  by (simp add: format_url_def lit_def startswith_def)

lemma ok_env_simps:
  "qr_make ok_env v ec bs bd d = Inr d" "make_image ok_env q = Inr (length q)"
  "makedirs_fault ok_env w p = None" "save_fault ok_env w i p = None"
  by (simp_all add: ok_env_def)

subsection \<open>Claims about \<open>generate_qr_code\<close>\<close>

text \<open>
  C3. Without a file name, the name is built from the URL as passed in (not the formatted
  one): the alphanumeric characters, \<open>-\<close> and \<open>_\<close> are kept, the first 20 of them are taken
  and \<open>.png\<close> is appended. A call that reports success has written its image to that name
  under \<open>qr_codes_output/\<close>. For \<open>example.com\<close>, when the encoder, the renderer and the
  operating system do not raise, the payload is \<open>https://example.com\<close>, the file is
  \<open>qr_codes_output/examplecom.png\<close> and the call reports success.
\<close>

theorem default_filename_from_url:
  "derive_filename db u None
     = take 20 (filter (\<lambda>c. isalnum db c \<or> c = ch CHR ''-'' \<or> c = ch CHR ''_'') u) @ lit ''.png''
   \<and> (generate_qr_code db e self (PyStr u) None w = (Returns (True, m, i), w') \<longrightarrow>
        m = lit ''QR code generated successfully! Saved as: qr_codes_output/''
              @ derive_filename db u None
        \<and> i \<noteq> None
        \<and> files w' = (files w)(lit ''qr_codes_output/'' @ derive_filename db u None := i))
   \<and> (qr_make e (version self) (error_correction self) (box_size self) (border self)
          (lit ''https://example.com'') = Inr qr
        \<and> make_image e qr = Inr img
        \<and> (\<forall>w p. makedirs_fault e w p = None) \<and> (\<forall>w i p. save_fault e w i p = None) \<longrightarrow>
        fst (generate_qr_code db e self (PyStr (lit ''example.com'')) None w) =
          Returns (True,
                   lit ''QR code generated successfully! Saved as: qr_codes_output/examplecom.png'',
                   Some img)
        \<and> files (snd (generate_qr_code db e self (PyStr (lit ''example.com'')) None w))
             (lit ''qr_codes_output/examplecom.png'') = Some img)"
proof -
  have a: "derive_filename db u None
     = take 20 (filter (\<lambda>c. isalnum db c \<or> c = ch CHR ''-'' \<or> c = ch CHR ''_'') u) @ lit ''.png''"
    by (simp add: derive_filename_None safe_url_def)
  have p: "os_path_join output_dir (derive_filename db u None)
             = lit ''qr_codes_output/'' @ derive_filename db u None" for u
    using default_path [of db u] by (simp add: derive_filename_None)
  have b: "generate_qr_code db e self (PyStr u) None w = (Returns (True, m, i), w') \<longrightarrow>
        m = lit ''QR code generated successfully! Saved as: qr_codes_output/''
              @ derive_filename db u None
        \<and> i \<noteq> None
        \<and> files w' = (files w)(lit ''qr_codes_output/'' @ derive_filename db u None := i)"
  proof
    assume "generate_qr_code db e self (PyStr u) None w = (Returns (True, m, i), w')"
    from generate_success [OF this] show "m = lit ''QR code generated successfully! Saved as: qr_codes_output/''
              @ derive_filename db u None
        \<and> i \<noteq> None
        \<and> files w' = (files w)(lit ''qr_codes_output/'' @ derive_filename db u None := i)"
      by (simp add: p lit_def)
  qed
  have q: "lit ''qr_codes_output/'' @ derive_filename db (lit ''example.com'') None
             = lit ''qr_codes_output/examplecom.png''"
    by (simp add: derive_filename_None safe_url_example) (simp add: lit_def)
  have c: "qr_make e (version self) (error_correction self) (box_size self) (border self)
          (lit ''https://example.com'') = Inr qr
        \<and> make_image e qr = Inr img
        \<and> (\<forall>w p. makedirs_fault e w p = None) \<and> (\<forall>w i p. save_fault e w i p = None) \<longrightarrow>
        fst (generate_qr_code db e self (PyStr (lit ''example.com'')) None w) =
          Returns (True,
                   lit ''QR code generated successfully! Saved as: qr_codes_output/examplecom.png'',
                   Some img)
        \<and> files (snd (generate_qr_code db e self (PyStr (lit ''example.com'')) None w))
             (lit ''qr_codes_output/examplecom.png'') = Some img"
  proof
    assume h: "qr_make e (version self) (error_correction self) (box_size self) (border self)
          (lit ''https://example.com'') = Inr qr
        \<and> make_image e qr = Inr img
        \<and> (\<forall>w p. makedirs_fault e w p = None) \<and> (\<forall>w i p. save_fault e w i p = None)"
    then have "qr_make e (version self) (error_correction self) (box_size self) (border self)
          (format_url (lit ''example.com'')) = Inr qr"
      by (simp add: format_example)
    from generate_no_fault [OF validate_example this, of img db None w] h
    have "generate_qr_code db e self (PyStr (lit ''example.com'')) None w =
      (Returns (True,
               lit ''QR code generated successfully! Saved as: '' @ lit ''qr_codes_output/examplecom.png'',
               Some img),
      (if os_path_exists w output_dir then w else w\<lparr>dirs := insert output_dir (dirs w)\<rparr>)
        \<lparr>files := (files w)(lit ''qr_codes_output/examplecom.png'' \<mapsto> img)\<rparr>)"
      by (simp add: p q)
    then show "fst (generate_qr_code db e self (PyStr (lit ''example.com'')) None w) =
          Returns (True,
                   lit ''QR code generated successfully! Saved as: qr_codes_output/examplecom.png'',
                   Some img)
        \<and> files (snd (generate_qr_code db e self (PyStr (lit ''example.com'')) None w))
             (lit ''qr_codes_output/examplecom.png'') = Some img"
      by (simp add: lit_def)
  qed
  from a b c show ?thesis by blast
qed

theorem default_filename_from_url_witness:
  "fst (generate_qr_code ascii_db ok_env init (PyStr (lit ''example.com'')) None empty_world)
     = Returns (True,
          lit ''QR code generated successfully! Saved as: qr_codes_output/examplecom.png'',
          Some 19)
   \<and> files (snd (generate_qr_code ascii_db ok_env init (PyStr (lit ''example.com'')) None empty_world))
        (lit ''qr_codes_output/examplecom.png'') = Some 19"
  using default_filename_from_url [of ascii_db "lit ''example.com''" ok_env init empty_world
      "lit ''QR code generated successfully! Saved as: qr_codes_output/examplecom.png''"
      "Some 19" "snd (generate_qr_code ascii_db ok_env init (PyStr (lit ''example.com'')) None empty_world)"
      "lit ''https://example.com''" 19]
  by (simp add: ok_env_simps) (simp add: lit_def)

text \<open>
  C4. A string that \<open>validate_url\<close> rejects makes \<open>generate_qr_code\<close> return
  \<open>(False, "Please enter a valid URL.", None)\<close> whatever the collaborators would do, and
  the file system is left as it was; the empty string is such a string.
\<close>

theorem invalid_url_rejected:
  "(validate_url (PyStr u) = Inr False \<longrightarrow>
      generate_qr_code db e self (PyStr u) filename w
        = (Returns (False, lit ''Please enter a valid URL.'', None), w))
   \<and> generate_qr_code db e self (PyStr []) filename w
        = (Returns (False, lit ''Please enter a valid URL.'', None), w)"
proof -
  have "validate_url (PyStr []) = Inr False" by (simp add: validate_url_def)
  then show ?thesis by (simp add: generate_invalid)
qed

theorem invalid_url_rejected_witness:
  "validate_url (PyStr (lit ''ftp://x'')) = Inr False
   \<and> generate_qr_code ascii_db interrupted_env init (PyStr (lit ''ftp://x'')) None empty_world
        = (Returns (False, lit ''Please enter a valid URL.'', None), empty_world)"
proof -
  have h: "validate_url (PyStr (lit ''ftp://x'')) = Inr False"
    by (simp add: validate_url_def lit_def startswith_def endswith_def)
  with invalid_url_rejected [of "lit ''ftp://x''" ascii_db interrupted_env init None empty_world]
  show ?thesis by simp
qed

lemma derive_filename_png: "endswith (lower db (derive_filename db u filename)) (lit ''.png'')"
  by (simp add: derive_filename_def Let_def lower_png)

lemma derive_filename_Some:
  "f \<noteq> [] \<Longrightarrow> derive_filename db u (Some f)
     = (if endswith (lower db f) (lit ''.png'') then f else f @ lit ''.png'')"
  by (simp add: derive_filename_def)

lemma lower_ascii: "\<forall>c\<in>set s. c < 128 \<Longrightarrow> lower db s = map ascii_lower s"
  by (simp add: lower_def lower_from_ascii)

text \<open>
  C6, as the code has it. A non-empty file name passed by the caller is kept when its
  lower-cased form ends in \<open>.png\<close> and gets \<open>.png\<close> appended once otherwise; an empty file
  name counts as none, for every URL: the name is then the one built from the URL;
  whatever is passed, the final name ends in \<open>.png\<close> after lower-casing; and a call that
  reports success has saved under that name joined to the output directory.
\<close>

theorem explicit_filename_suffix:
  "(f \<noteq> [] \<longrightarrow>
      derive_filename db u (Some f)
        = (if endswith (lower db f) (lit ''.png'') then f else f @ lit ''.png''))
   \<and> derive_filename db u (Some []) = derive_filename db u None
   \<and> derive_filename db u (Some [])
       = take 20 (filter (\<lambda>c. isalnum db c \<or> c = ch CHR ''-'' \<or> c = ch CHR ''_'') u)
           @ lit ''.png''
   \<and> endswith (lower db (derive_filename db u filename)) (lit ''.png'')
   \<and> derive_filename db u (Some (lit ''code'')) = lit ''code.png''
   \<and> derive_filename db u (Some (lit ''code.PNG'')) = lit ''code.PNG''
   \<and> (generate_qr_code db e self (PyStr u) filename w = (Returns (True, m, i), w') \<longrightarrow>
        m = lit ''QR code generated successfully! Saved as: ''
              @ os_path_join output_dir (derive_filename db u filename))"
proof -
  have l1: "lower db (lit ''code'') = lit ''code''"
    by (simp add: lower_ascii lit_def ascii_lower_def)
  have l2: "lower db (lit ''code.PNG'') = lit ''code.png''"
    by (simp add: lower_ascii lit_def ascii_lower_def)
  have c: "derive_filename db u (Some (lit ''code'')) = lit ''code.png''"
    by (simp add: derive_filename_def l1) (simp add: lit_def endswith_def suffix_to_prefix)
  have d: "derive_filename db u (Some (lit ''code.PNG'')) = lit ''code.PNG''"
    by (simp add: derive_filename_def l2) (simp add: lit_def endswith_def suffix_to_prefix)
  have n: "derive_filename db u (Some []) = derive_filename db u None"
    by (simp add: derive_filename_def)
  have n': "derive_filename db u (Some [])
       = take 20 (filter (\<lambda>c. isalnum db c \<or> c = ch CHR ''-'' \<or> c = ch CHR ''_'') u)
           @ lit ''.png''"
    by (simp add: n derive_filename_None safe_url_def)
  from c d n n' derive_filename_Some [of f db u] derive_filename_png [of db u filename]
    generate_success [of db e self u filename w m i w']
  show ?thesis by blast
qed

theorem explicit_filename_suffix_witness:
  "derive_filename ascii_db (lit ''example.com'') (Some (lit ''My.Png'')) = lit ''My.Png''
   \<and> derive_filename ascii_db (lit ''example.com'') (Some (lit ''a.b'')) = lit ''a.b.png''
   \<and> (\<exists>w'. generate_qr_code ascii_db ok_env init (PyStr (lit ''example.com'')) (Some (lit ''a.b''))
               empty_world
         = (Returns (True, lit ''QR code generated successfully! Saved as: qr_codes_output/a.b.png'',
                     Some 19), w'))"
proof -
  have l1: "lower ascii_db (lit ''My.Png'') = lit ''my.png''"
    by (simp add: lower_ascii lit_def ascii_lower_def)
  have l2: "lower ascii_db (lit ''a.b'') = lit ''a.b''"
    by (simp add: lower_ascii lit_def ascii_lower_def)
  have e1: "endswith (lit ''my.png'') (lit ''.png'')" "\<not> endswith (lit ''a.b'') (lit ''.png'')"
    by (simp_all add: lit_def endswith_def suffix_to_prefix)
  have a: "derive_filename ascii_db (lit ''example.com'') (Some (lit ''My.Png'')) = lit ''My.Png''"
    using explicit_filename_suffix [where f = "lit ''My.Png''" and db = ascii_db
        and u = "lit ''example.com''", THEN conjunct1] l1 e1
    by (simp add: lit_def)
  have b: "derive_filename ascii_db (lit ''example.com'') (Some (lit ''a.b'')) = lit ''a.b.png''"
    using explicit_filename_suffix [where f = "lit ''a.b''" and db = ascii_db
        and u = "lit ''example.com''", THEN conjunct1] l2 e1
    by (simp add: lit_def)
  have "os_path_join output_dir (lit ''a.b.png'') = lit ''qr_codes_output/a.b.png''"
    by (simp add: os_path_join_def output_dir_def lit_def startswith_def endswith_def
        suffix_to_prefix)
  with b generate_no_fault [OF validate_example, of ok_env init "lit ''https://example.com''" 19
      ascii_db "Some (lit ''a.b'')" empty_world]
  have "\<exists>w'. generate_qr_code ascii_db ok_env init (PyStr (lit ''example.com'')) (Some (lit ''a.b''))
               empty_world
         = (Returns (True, lit ''QR code generated successfully! Saved as: qr_codes_output/a.b.png'',
                     Some 19), w')"
    by (simp add: ok_env_simps format_example) (simp add: lit_def)
  with a b show ?thesis by blast
qed

text \<open>
  C6 as stated fails for the empty file name: \<open>not filename\<close> holds for it, so the name is
  built from the URL and is not the empty name with \<open>.png\<close> appended.
\<close>

theorem empty_filename_counterexample:
  "derive_filename ascii_db (lit ''example.com'') (Some []) = lit ''examplecom.png''
   \<and> \<not> endswith (lower ascii_db []) (lit ''.png'')
   \<and> derive_filename ascii_db (lit ''example.com'') (Some []) \<noteq> [] @ lit ''.png''"
proof -
  have "derive_filename ascii_db (lit ''example.com'') (Some [])
          = derive_filename ascii_db (lit ''example.com'') None"
    by (simp add: derive_filename_def)
  then have "derive_filename ascii_db (lit ''example.com'') (Some []) = lit ''examplecom.png''"
    by (simp add: derive_filename_None safe_url_example) (simp add: lit_def)
  then show ?thesis
    by (simp add: lower_def endswith_def) (simp add: lit_def)
qed

text \<open>
  C7. Two calls for the same URL without a file name that both report success name the
  same path, \<open>qr_codes_output/\<close> followed by the name built from the URL, whatever the
  encoder, the operating system and the file system are at each call. The second call
  starts where the first ended: afterwards the path holds the second image, the first one
  is gone, and no other file has been added.
\<close>

theorem same_url_same_path:
  assumes "generate_qr_code db e1 self (PyStr u) None w0 = (Returns (True, m1, i1), w1)"
    and "generate_qr_code db e2 self (PyStr u) None w1 = (Returns (True, m2, i2), w2)"
  shows "m1 = lit ''QR code generated successfully! Saved as: qr_codes_output/''
                @ safe_url db u @ lit ''.png''
     \<and> m2 = m1
     \<and> i1 \<noteq> None \<and> i2 \<noteq> None
     \<and> files w1 = (files w0)(lit ''qr_codes_output/'' @ safe_url db u @ lit ''.png'' := i1)
     \<and> files w2 = (files w0)(lit ''qr_codes_output/'' @ safe_url db u @ lit ''.png'' := i2)"
proof -
  note s1 = generate_success [OF assms(1), unfolded default_path]
  note s2 = generate_success [OF assms(2), unfolded default_path]
  have "lit ''QR code generated successfully! Saved as: '' @ lit ''qr_codes_output/'' @ x
          = lit ''QR code generated successfully! Saved as: qr_codes_output/'' @ x" for x
    by (simp add: lit_def)
  with s1 s2 show ?thesis by simp
qed

theorem same_url_same_path_witness:
  "\<exists>m w1 w2.
     generate_qr_code ascii_db ok_env init (PyStr (lit ''example.com'')) None empty_world
       = (Returns (True, m, Some 19), w1)
   \<and> generate_qr_code ascii_db (ok_env\<lparr>make_image := (\<lambda>qr. Inr 7)\<rparr>) init
        (PyStr (lit ''example.com'')) None w1
       = (Returns (True, m, Some 7), w2)
   \<and> files w1 (lit ''qr_codes_output/examplecom.png'') = Some 19
   \<and> files w2 (lit ''qr_codes_output/examplecom.png'') = Some 7"
proof -
  let ?e2 = "ok_env\<lparr>make_image := (\<lambda>qr. Inr 7)\<rparr>"
  let ?u = "lit ''example.com''"
  have len: "length (lit ''https://example.com'') = 19"
    by (simp add: lit_def)
  have "\<exists>m1 w1. generate_qr_code ascii_db ok_env init (PyStr ?u) None empty_world
       = (Returns (True, m1, Some 19), w1)"
    using generate_no_fault [OF validate_example, of ok_env init "lit ''https://example.com''" 19
      ascii_db None empty_world]
    by (simp add: ok_env_simps format_example len)
  then obtain m1 w1 where h1:
    "generate_qr_code ascii_db ok_env init (PyStr ?u) None empty_world
       = (Returns (True, m1, Some 19), w1)"
    by blast
  have "\<exists>m2 w2. generate_qr_code ascii_db ?e2 init (PyStr ?u) None w1
       = (Returns (True, m2, Some 7), w2)"
    using generate_no_fault [OF validate_example, of ?e2 init "lit ''https://example.com''" 7
      ascii_db None w1]
    by (simp add: ok_env_def format_example)
  then obtain m2 w2 where h2:
    "generate_qr_code ascii_db ?e2 init (PyStr ?u) None w1 = (Returns (True, m2, Some 7), w2)"
    by blast
  have p: "lit ''qr_codes_output/'' @ safe_url ascii_db ?u @ lit ''.png''
             = lit ''qr_codes_output/examplecom.png''"
    by (simp add: safe_url_example) (simp add: lit_def)
  from same_url_same_path [OF h1 h2] h1 h2 show ?thesis
    by (auto simp: p)
qed

text \<open>
  C10. \<open>/./\<close> is accepted by the validator, none of its characters survives line 84, and
  the derived file name is \<open>.png\<close> with nothing appended after it; when no collaborator
  raises, the call reports success and the image is stored as \<open>qr_codes_output/.png\<close>.
\<close>

theorem dot_slash_hidden_file:
  "validate_url (PyStr (lit ''/./'')) = Inr True
   \<and> safe_url db (lit ''/./'') = []
   \<and> derive_filename db (lit ''/./'') None = lit ''.png''
   \<and> (qr_make e (version self) (error_correction self) (box_size self) (border self)
          (lit ''https:///./'') = Inr qr
        \<and> make_image e qr = Inr img
        \<and> (\<forall>w p. makedirs_fault e w p = None) \<and> (\<forall>w i p. save_fault e w i p = None) \<longrightarrow>
        fst (generate_qr_code db e self (PyStr (lit ''/./'')) None w) =
          Returns (True, lit ''QR code generated successfully! Saved as: qr_codes_output/.png'',
                   Some img)
        \<and> files (snd (generate_qr_code db e self (PyStr (lit ''/./'')) None w))
             (lit ''qr_codes_output/.png'') = Some img)"
proof -
  have v: "validate_url (PyStr (lit ''/./'')) = Inr True"
    by (simp add: validate_url_def lit_def startswith_def endswith_def suffix_to_prefix)
  have s: "safe_url db (lit ''/./'') = []"
    by (simp add: safe_url_def lit_def isalnum_def)
  have d: "derive_filename db (lit ''/./'') None = lit ''.png''"
    by (simp add: derive_filename_None s)
  have f: "format_url (lit ''/./'') = lit ''https:///./''"
    by (simp add: format_url_def lit_def startswith_def)
  have p: "os_path_join output_dir (lit ''.png'') = lit ''qr_codes_output/.png''"
    by (simp add: os_path_join_def output_dir_def lit_def startswith_def endswith_def
        suffix_to_prefix)
  have g: "qr_make e (version self) (error_correction self) (box_size self) (border self)
          (lit ''https:///./'') = Inr qr
        \<and> make_image e qr = Inr img
        \<and> (\<forall>w p. makedirs_fault e w p = None) \<and> (\<forall>w i p. save_fault e w i p = None) \<longrightarrow>
        fst (generate_qr_code db e self (PyStr (lit ''/./'')) None w) =
          Returns (True, lit ''QR code generated successfully! Saved as: qr_codes_output/.png'',
                   Some img)
        \<and> files (snd (generate_qr_code db e self (PyStr (lit ''/./'')) None w))
             (lit ''qr_codes_output/.png'') = Some img"
  proof
    assume h: "qr_make e (version self) (error_correction self) (box_size self) (border self)
          (lit ''https:///./'') = Inr qr
        \<and> make_image e qr = Inr img
        \<and> (\<forall>w p. makedirs_fault e w p = None) \<and> (\<forall>w i p. save_fault e w i p = None)"
    then have "qr_make e (version self) (error_correction self) (box_size self) (border self)
          (format_url (lit ''/./'')) = Inr qr"
      by (simp add: f)
    from generate_no_fault [OF v this, of img db None w] h
    have "generate_qr_code db e self (PyStr (lit ''/./'')) None w =
      (Returns (True,
               lit ''QR code generated successfully! Saved as: '' @ lit ''qr_codes_output/.png'',
               Some img),
      (if os_path_exists w output_dir then w else w\<lparr>dirs := insert output_dir (dirs w)\<rparr>)
        \<lparr>files := (files w)(lit ''qr_codes_output/.png'' \<mapsto> img)\<rparr>)"
      by (simp add: d p)
    then show "fst (generate_qr_code db e self (PyStr (lit ''/./'')) None w) =
          Returns (True, lit ''QR code generated successfully! Saved as: qr_codes_output/.png'',
                   Some img)
        \<and> files (snd (generate_qr_code db e self (PyStr (lit ''/./'')) None w))
             (lit ''qr_codes_output/.png'') = Some img"
      by (simp add: lit_def)
  qed
  from v s d g show ?thesis by blast
qed

theorem dot_slash_hidden_file_witness:
  "fst (generate_qr_code ascii_db ok_env init (PyStr (lit ''/./'')) None empty_world)
     = Returns (True, lit ''QR code generated successfully! Saved as: qr_codes_output/.png'',
                Some 11)
   \<and> files (snd (generate_qr_code ascii_db ok_env init (PyStr (lit ''/./'')) None empty_world))
        (lit ''qr_codes_output/.png'') = Some 11"
  using dot_slash_hidden_file [where db = ascii_db and e = ok_env and self = init
      and w = empty_world and qr = "lit ''https:///./''" and img = 11, THEN conjunct2,
      THEN conjunct2, THEN conjunct2]
  by (simp add: ok_env_simps) (simp add: lit_def)

subsection \<open>Exceptions in \<open>generate_qr_code\<close>\<close>

lemma payload_length: "length (lit ''https://example.com'') = 19"
  by (simp add: lit_def)

lemma except_Exception:
  "generate_body db e self url filename w = (Inl (Exception (Inr m)), w') \<Longrightarrow>
   generate_qr_code db e self url filename w
     = (Returns (False, lit ''Error generating QR code: '' @ m, None), w')"
  by (simp add: generate_qr_code_def)

lemma handler_raises:
  "generate_body db e self url filename w = (Inl (Exception (Inl x)), w') \<Longrightarrow>
   generate_qr_code db e self url filename w = (Raises x, w')"
  by (simp add: generate_qr_code_def)

lemma propagated_only:
  "generate_qr_code db e self url filename w = (Raises x, w') \<Longrightarrow>
   (\<not> is_Exception x \<and> generate_body db e self url filename w = (Inl x, w'))
   \<or> generate_body db e self url filename w = (Inl (Exception (Inl x)), w')"
  by (auto simp: generate_qr_code_def is_Exception_def split: prod.splits sum.splits exn.splits)

lemma body_validate_raises:
  "validate_url url = Inl x \<Longrightarrow> generate_body db e self url filename w = (Inl x, w)"
  by (simp add: generate_body_def)

lemma body_qr_make_raises:
  "validate_url (PyStr u) = Inr True \<Longrightarrow>
   qr_make e (version self) (error_correction self) (box_size self) (border self) (format_url u)
     = Inl x \<Longrightarrow>
   generate_body db e self (PyStr u) filename w = (Inl x, w)"
  by (simp add: generate_body_def)

lemma body_make_image_raises:
  "validate_url (PyStr u) = Inr True \<Longrightarrow>
   qr_make e (version self) (error_correction self) (box_size self) (border self) (format_url u)
     = Inr qr \<Longrightarrow>
   make_image e qr = Inl x \<Longrightarrow>
   generate_body db e self (PyStr u) filename w = (Inl x, w)"
  by (simp add: generate_body_def)

lemma body_makedirs_raises:
  "validate_url (PyStr u) = Inr True \<Longrightarrow>
   qr_make e (version self) (error_correction self) (box_size self) (border self) (format_url u)
     = Inr qr \<Longrightarrow>
   make_image e qr = Inr img \<Longrightarrow>
   \<not> os_path_exists w output_dir \<Longrightarrow>
   makedirs_fault e w output_dir = Some (x, w1) \<Longrightarrow>
   generate_body db e self (PyStr u) filename w = (Inl x, w1)"
  by (simp add: generate_body_def os_makedirs_def)

lemma body_save_raises:
  "validate_url (PyStr u) = Inr True \<Longrightarrow>
   qr_make e (version self) (error_correction self) (box_size self) (border self) (format_url u)
     = Inr qr \<Longrightarrow>
   make_image e qr = Inr img \<Longrightarrow>
   (if os_path_exists w output_dir then (None, w) else os_makedirs e output_dir w) = (None, w1) \<Longrightarrow>
   save_fault e w1 img (os_path_join output_dir (derive_filename db u filename)) = Some (x, w2) \<Longrightarrow>
   generate_body db e self (PyStr u) filename w = (Inl x, w2)"
  by (auto simp: generate_body_def image_save_def Let_def split: if_splits)

text \<open>
  C2, as the code has it. An instance of \<open>Exception\<close> raised in the body of the \<open>try\<close> is
  caught, and when \<open>str(e)\<close> returns it is turned into
  \<open>(False, "Error generating QR code: " + str(e), None)\<close>: so it is when the validator
  raises it, when the encoder raises it, when the renderer raises it, when \<open>os.makedirs\<close>
  raises it and when \<open>save\<close> raises it. When \<open>str(e)\<close> raises in the handler, what it raises
  leaves \<open>generate_qr_code\<close>. Nothing else leaves it but an exception of the body that is
  not an instance of \<open>Exception\<close>.
\<close>

theorem generate_catches_Exception:
  "(generate_body db e self url filename w = (Inl (Exception (Inr m)), w') \<longrightarrow>
      generate_qr_code db e self url filename w
        = (Returns (False, lit ''Error generating QR code: '' @ m, None), w'))
   \<and> (generate_body db e self url filename w = (Inl (Exception (Inl x)), w') \<longrightarrow>
        generate_qr_code db e self url filename w = (Raises x, w'))
   \<and> (generate_qr_code db e self url filename w = (Raises x, w') \<longrightarrow>
        (\<not> is_Exception x \<and> generate_body db e self url filename w = (Inl x, w'))
        \<or> generate_body db e self url filename w = (Inl (Exception (Inl x)), w'))
   \<and> (validate_url url = Inl (Exception (Inr m)) \<longrightarrow>
        generate_qr_code db e self url filename w
          = (Returns (False, lit ''Error generating QR code: '' @ m, None), w))
   \<and> (validate_url (PyStr u) = Inr True
        \<and> qr_make e (version self) (error_correction self) (box_size self) (border self)
             (format_url u) = Inl (Exception (Inr m)) \<longrightarrow>
        generate_qr_code db e self (PyStr u) filename w
          = (Returns (False, lit ''Error generating QR code: '' @ m, None), w))
   \<and> (validate_url (PyStr u) = Inr True
        \<and> qr_make e (version self) (error_correction self) (box_size self) (border self)
             (format_url u) = Inr qr
        \<and> make_image e qr = Inl (Exception (Inr m)) \<longrightarrow>
        generate_qr_code db e self (PyStr u) filename w
          = (Returns (False, lit ''Error generating QR code: '' @ m, None), w))
   \<and> (validate_url (PyStr u) = Inr True
        \<and> qr_make e (version self) (error_correction self) (box_size self) (border self)
             (format_url u) = Inr qr
        \<and> make_image e qr = Inr img
        \<and> \<not> os_path_exists w output_dir
        \<and> makedirs_fault e w output_dir = Some (Exception (Inr m), w1) \<longrightarrow>
        generate_qr_code db e self (PyStr u) filename w
          = (Returns (False, lit ''Error generating QR code: '' @ m, None), w1))
   \<and> (validate_url (PyStr u) = Inr True
        \<and> qr_make e (version self) (error_correction self) (box_size self) (border self)
             (format_url u) = Inr qr
        \<and> make_image e qr = Inr img
        \<and> (if os_path_exists w output_dir then (None, w) else os_makedirs e output_dir w)
             = (None, w1)
        \<and> save_fault e w1 img (os_path_join output_dir (derive_filename db u filename))
             = Some (Exception (Inr m), w2) \<longrightarrow>
        generate_qr_code db e self (PyStr u) filename w
          = (Returns (False, lit ''Error generating QR code: '' @ m, None), w2))"
proof -
  note conv = except_Exception [where db = db and e = e and self = self and filename = filename
      and w = w and m = m]
  have a: "generate_body db e self url filename w = (Inl (Exception (Inr m)), w') \<longrightarrow>
      generate_qr_code db e self url filename w
        = (Returns (False, lit ''Error generating QR code: '' @ m, None), w')"
    using conv by blast
  have a': "generate_body db e self url filename w = (Inl (Exception (Inl x)), w') \<longrightarrow>
        generate_qr_code db e self url filename w = (Raises x, w')"
    using handler_raises by blast
  have b: "generate_qr_code db e self url filename w = (Raises x, w') \<longrightarrow>
        (\<not> is_Exception x \<and> generate_body db e self url filename w = (Inl x, w'))
        \<or> generate_body db e self url filename w = (Inl (Exception (Inl x)), w')"
    using propagated_only by blast
  have c: "validate_url url = Inl (Exception (Inr m)) \<longrightarrow>
        generate_qr_code db e self url filename w
          = (Returns (False, lit ''Error generating QR code: '' @ m, None), w)"
    using conv [OF body_validate_raises] by blast
  have d: "validate_url (PyStr u) = Inr True
        \<and> qr_make e (version self) (error_correction self) (box_size self) (border self)
             (format_url u) = Inl (Exception (Inr m)) \<longrightarrow>
        generate_qr_code db e self (PyStr u) filename w
          = (Returns (False, lit ''Error generating QR code: '' @ m, None), w)"
    using conv [OF body_qr_make_raises] by blast
  have f: "validate_url (PyStr u) = Inr True
        \<and> qr_make e (version self) (error_correction self) (box_size self) (border self)
             (format_url u) = Inr qr
        \<and> make_image e qr = Inl (Exception (Inr m)) \<longrightarrow>
        generate_qr_code db e self (PyStr u) filename w
          = (Returns (False, lit ''Error generating QR code: '' @ m, None), w)"
    using conv [OF body_make_image_raises] by blast
  have g: "validate_url (PyStr u) = Inr True
        \<and> qr_make e (version self) (error_correction self) (box_size self) (border self)
             (format_url u) = Inr qr
        \<and> make_image e qr = Inr img
        \<and> \<not> os_path_exists w output_dir
        \<and> makedirs_fault e w output_dir = Some (Exception (Inr m), w1) \<longrightarrow>
        generate_qr_code db e self (PyStr u) filename w
          = (Returns (False, lit ''Error generating QR code: '' @ m, None), w1)"
    using conv [OF body_makedirs_raises] by blast
  have h: "validate_url (PyStr u) = Inr True
        \<and> qr_make e (version self) (error_correction self) (box_size self) (border self)
             (format_url u) = Inr qr
        \<and> make_image e qr = Inr img
        \<and> (if os_path_exists w output_dir then (None, w) else os_makedirs e output_dir w)
             = (None, w1)
        \<and> save_fault e w1 img (os_path_join output_dir (derive_filename db u filename))
             = Some (Exception (Inr m), w2) \<longrightarrow>
        generate_qr_code db e self (PyStr u) filename w
          = (Returns (False, lit ''Error generating QR code: '' @ m, None), w2)"
    using conv [OF body_save_raises] by blast
  from a a' b c d f g h show ?thesis by blast
qed

theorem generate_catches_Exception_witness:
  "generate_qr_code ascii_db
       (ok_env\<lparr>save_fault := (\<lambda>w img p. Some (Exception (Inr (lit ''disk full'')), w))\<rparr>) init
       (PyStr (lit ''example.com'')) None empty_world
     = (Returns (False, lit ''Error generating QR code: disk full'', None),
        empty_world\<lparr>dirs := {output_dir}\<rparr>)"
proof -
  let ?e = "ok_env\<lparr>save_fault := (\<lambda>w img p. Some (Exception (Inr (lit ''disk full'')), w))\<rparr>"
  have m: "(if os_path_exists empty_world output_dir then (None, empty_world)
            else os_makedirs ?e output_dir empty_world)
           = (None, empty_world\<lparr>dirs := {output_dir}\<rparr>)"
    by (simp add: os_path_exists_def os_makedirs_def empty_world_def ok_env_def)
  from generate_catches_Exception [where db = ascii_db and e = ?e and self = init
      and u = "lit ''example.com''" and filename = None and w = empty_world
      and qr = "lit ''https://example.com''" and img = 19 and m = "lit ''disk full''"
      and ?w1.0 = "empty_world\<lparr>dirs := {output_dir}\<rparr>"
      and ?w2.0 = "empty_world\<lparr>dirs := {output_dir}\<rparr>",
      THEN conjunct2, THEN conjunct2, THEN conjunct2, THEN conjunct2, THEN conjunct2,
      THEN conjunct2, THEN conjunct2] m
  show ?thesis
    by (simp add: validate_example format_example ok_env_def) (simp add: lit_def)
qed

text \<open>
  The handler itself can raise: an object whose truth-value test raises an \<open>Exception\<close>
  whose \<open>__str__\<close> raises makes that second exception leave \<open>generate_qr_code\<close>.
\<close>

lemma raising_str_leaves:
  "generate_qr_code ascii_db ok_env init
       (PyObj (Inl (Exception (Inl (Exception (Inr (lit ''no text'')))))) None) None empty_world
     = (Raises (Exception (Inr (lit ''no text''))), empty_world)"
  by (rule handler_raises) (simp add: generate_body_def validate_url_def)

text \<open>
  C2 as stated fails: a keyboard interrupt while the image is being saved is not an
  instance of \<open>Exception\<close>, and \<open>generate_qr_code\<close> raises it to its caller.
\<close>

theorem keyboard_interrupt_counterexample:
  "generate_qr_code ascii_db interrupted_env init (PyStr (lit ''example.com'')) None empty_world
     = (Raises KeyboardInterrupt, empty_world\<lparr>dirs := {output_dir}\<rparr>)"
proof -
  have "generate_body ascii_db interrupted_env init (PyStr (lit ''example.com'')) None empty_world
          = (Inl KeyboardInterrupt, empty_world\<lparr>dirs := {output_dir}\<rparr>)"
    by (rule body_save_raises [where qr = "lit ''https://example.com''" and img = 19])
       (simp_all add: validate_example format_example interrupted_env_def ok_env_def
          os_path_exists_def os_makedirs_def empty_world_def payload_length)
  then show ?thesis by (simp add: generate_qr_code_def)
qed

subsection \<open>The attributes over the life of the object\<close>

lemma exec_attrs: "attrs (exec db c s) = attrs s"
  by (cases c) simp_all

lemma run_attrs: "attrs (run db calls s) = attrs s"
  unfolding run_def by (induction calls arbitrary: s) (simp_all add: exec_attrs)

text \<open>
  C8. \<open>__init__\<close> sets \<open>version = 1\<close>, \<open>box_size = 10\<close>, \<open>border = 4\<close> and
  \<open>error_correction = ERROR_CORRECT_M\<close>; no call of \<open>validate_url\<close>, \<open>format_url\<close>,
  \<open>generate_qr_code\<close> or \<open>display_qr_info\<close> changes an attribute, so after any sequence of
  calls on a fresh object the four attributes have their initial values.
\<close>

theorem attributes_fixed:
  "version init = 1 \<and> box_size init = 10 \<and> border init = 4
   \<and> error_correction init = ERROR_CORRECT_M
   \<and> attrs (start w) = init
   \<and> attrs (exec db c s) = attrs s
   \<and> attrs (run db calls s) = attrs s
   \<and> attrs (run db calls (start w))
       = \<lparr>version = 1, box_size = 10, border = 4, error_correction = ERROR_CORRECT_M\<rparr>"
  by (simp add: exec_attrs run_attrs) (simp add: init_def start_def)

theorem attributes_fixed_witness:
  "attrs (run ascii_db
       [Validate_url PyNone, Format_url (lit ''example.com''),
        Generate_qr_code ok_env (PyStr (lit ''example.com'')) None,
        Display_qr_info (lit ''example.com'') True (lit ''done'')]
       (start empty_world))
     = \<lparr>version = 1, box_size = 10, border = 4, error_correction = ERROR_CORRECT_M\<rparr>"
  using attributes_fixed [where db = ascii_db and w = empty_world and calls =
      "[Validate_url PyNone, Format_url (lit ''example.com''),
        Generate_qr_code ok_env (PyStr (lit ''example.com'')) None,
        Display_qr_info (lit ''example.com'') True (lit ''done'')]"]
  by blast

subsection \<open>The validator on other values\<close>

text \<open>
  C9, as the code has it. For a value that is not an instance of \<open>str\<close>
  (\<open>isinstance(x, str)\<close> returns \<open>False\<close>) and whose truth-value test returns,
  \<open>validate_url\<close> returns false without raising; \<open>None\<close>, integers and booleans are such
  values. A value that is false is rejected before \<open>isinstance\<close> is asked. When the
  truth-value test raises, \<open>validate_url\<close> raises the same exception, and so it does when
  the value is true and \<open>isinstance(x, str)\<close> raises.
\<close>

theorem validate_url_non_string:
  "(isinstance_str x = Inr False \<and> py_not x = Inr b \<longrightarrow> validate_url x = Inr False)
   \<and> (py_not x = Inr True \<longrightarrow> validate_url x = Inr False)
   \<and> (py_not x = Inl ex \<longrightarrow> validate_url x = Inl ex)
   \<and> (py_not x = Inr False \<and> isinstance_str x = Inl ex \<longrightarrow> validate_url x = Inl ex)
   \<and> validate_url PyNone = Inr False
   \<and> validate_url (PyInt n) = Inr False
   \<and> validate_url (PyBool c) = Inr False"
proof -
  have a: "isinstance_str x = Inr False \<and> py_not x = Inr b \<longrightarrow> validate_url x = Inr False"
    by (simp add: validate_url_def split: bool.splits)
  have a': "py_not x = Inr True \<longrightarrow> validate_url x = Inr False"
    by (simp add: validate_url_def)
  have b: "py_not x = Inl ex \<longrightarrow> validate_url x = Inl ex"
    by (simp add: validate_url_def)
  have b': "py_not x = Inr False \<and> isinstance_str x = Inl ex \<longrightarrow> validate_url x = Inl ex"
    by (simp add: validate_url_def)
  have c: "validate_url PyNone = Inr False" "validate_url (PyInt n) = Inr False"
    "validate_url (PyBool c) = Inr False"
    by (simp_all add: validate_url_def split: bool.splits)
  from a a' b b' c show ?thesis by blast
qed

theorem validate_url_non_string_witness:
  "isinstance_str (PyObj (Inr True) None) = Inr False
   \<and> py_not (PyObj (Inr True) None) = Inr False
   \<and> validate_url (PyObj (Inr True) None) = Inr False"
  using validate_url_non_string [where x = "PyObj (Inr True) None" and b = False,
      THEN conjunct1]
  by simp

text \<open>
  C9 as stated fails: \<open>not url\<close> is evaluated before \<open>isinstance(url, str)\<close>, so an object
  that is not a \<open>str\<close> and whose truth-value test raises makes \<open>validate_url\<close> raise.
\<close>

theorem validate_url_raising_truth_counterexample:
  "isinstance_str (PyObj (Inl (Exception (Inr (lit ''truth value is ambiguous'')))) None)
     = Inr False
   \<and> validate_url (PyObj (Inl (Exception (Inr (lit ''truth value is ambiguous'')))) None)
       = Inl (Exception (Inr (lit ''truth value is ambiguous'')))"
  by (simp add: validate_url_def)

text \<open>The same for a true object whose \<open>__class__\<close> raises when \<open>isinstance\<close> reads it.\<close>

lemma raising_isinstance_raises:
  "validate_url (PyObj (Inr True) (Some (Exception (Inr (lit ''no class'')))))
     = Inl (Exception (Inr (lit ''no class'')))"
  by (simp add: validate_url_def)

end
